theory Spec2Isabelle
  imports Complex_Main
begin

section \<open>Python values, exceptions and dictionaries\<close>

text \<open>
  The style module signals failure with exceptions. Every function of the module that can
  raise returns a sum here: \<open>Inl e\<close> is the exception \<open>e\<close> leaving the function,
  \<open>Inr v\<close> is the returned value. A function that may return Python's \<open>None\<close> returns an
  \<open>option\<close> inside the sum.

  The messages of the \<open>assert\<close> statements of \<open>process_property\<close> are kept as data rather
  than as formatted text. A failed \<open>assert\<close> without a message carries \<open>None\<close>: its
  \<open>args\<close> tuple is empty.
\<close>

datatype assert_msg =
    Too_many_values nat nat
  | Too_many_values_max nat nat
  | Invalid_keys "string list"
  | Unknown_Property
  | Invalid_Value

datatype exn =
    ValueError
  | KeyError
  | AttributeError
  | TypeError
  | IndexError
  | AssertionError "assert_msg option"

fun is_AssertionError :: "exn \<Rightarrow> bool" where
  "is_AssertionError (AssertionError m) = True"
| "is_AssertionError e = False"

text \<open>\<open>with suppress(E): return body\<close>: an exception of class \<open>E\<close> ends the block and the
  function falls through to its end, returning \<open>None\<close>.\<close>

definition suppress :: "(exn \<Rightarrow> bool) \<Rightarrow> exn + 'a option \<Rightarrow> exn + 'a option" where
  "suppress E r = (case r of Inl e \<Rightarrow> if E e then Inr None else Inl e | Inr v \<Rightarrow> Inr v)"

text \<open>A \<open>dict\<close> keeps its keys in insertion order; assigning to a key that is present keeps
  its place.\<close>

type_synonym 'v dict = "(string \<times> 'v) list"

fun dict_set :: "'v dict \<Rightarrow> string \<Rightarrow> 'v \<Rightarrow> 'v dict" where
  "dict_set [] k v = [(k, v)]"
| "dict_set ((a, b) # d) k v = (if a = k then (k, v) # d else (a, b) # dict_set d k v)"

fun dict_update :: "'v dict \<Rightarrow> (string \<times> 'v) list \<Rightarrow> 'v dict" where
  "dict_update d [] = d"
| "dict_update d ((k, v) # kvs) = dict_update (dict_set d k v) kvs"

definition dict_of :: "(string \<times> 'v) list \<Rightarrow> 'v dict" where
  "dict_of kvs = dict_update [] kvs"

section \<open>Strings\<close>

text \<open>Characters are bytes here, so the model covers ASCII text. The white space of
  \<open>str.split\<close>, \<open>str.strip\<close> and of the pattern \<open>\s\<close> is then the characters 9 to 13 and
  28 to 32.\<close>

definition is_space :: "char \<Rightarrow> bool" where
  "is_space c = (let n = (of_char c :: nat) in (9 \<le> n \<and> n \<le> 13) \<or> (28 \<le> n \<and> n \<le> 32))"

definition is_digit :: "char \<Rightarrow> bool" where
  "is_digit c = (let n = (of_char c :: nat) in 48 \<le> n \<and> n \<le> 57)"

definition strip :: "string \<Rightarrow> string" where
  "strip s = rev (dropWhile is_space (rev (dropWhile is_space s)))"

text \<open>\<open>s.split()\<close>: the maximal runs of characters that are not white space.\<close>

fun py_split_aux :: "string \<Rightarrow> string \<Rightarrow> string list" where
  "py_split_aux cur [] = (if cur = [] then [] else [cur])"
| "py_split_aux cur (c # cs) =
     (if is_space c then (if cur = [] then py_split_aux [] cs else cur # py_split_aux [] cs)
      else py_split_aux (cur @ [c]) cs)"

definition py_split :: "string \<Rightarrow> string list" where
  "py_split s = py_split_aux [] s"

text \<open>\<open>''.join(value.split())\<close>\<close>

definition remove_whitespace :: "string \<Rightarrow> string" where
  "remove_whitespace s = concat (py_split s)"

text \<open>\<open>int(s)\<close> for a text that matches \<open>[+-]?\d+\<close>.\<close>

definition digits_value :: "string \<Rightarrow> int" where
  "digits_value ds = foldl (\<lambda>acc c. 10 * acc + (int (of_char c) - 48)) 0 ds"

definition py_int :: "string \<Rightarrow> int" where
  "py_int s = (case s of
       [] \<Rightarrow> 0
     | c # t \<Rightarrow> if c = CHR ''-'' then - digits_value t
               else if c = CHR ''+'' then digits_value t
               else digits_value s)"

subsection \<open>The patterns \<open>rgb_re\<close> and \<open>rgba_re\<close>\<close>

text \<open>
  \<open>rgb_re\<close> is \<^verbatim>\<open>rgb\(I,I,I,?\)\<close> or else \<^verbatim>\<open>rgb\(I,I,I,I,?\)\<close>, and \<open>rgba_re\<close> is
  \<^verbatim>\<open>rgba\(I,I,I,I,?\)\<close>, where \<open>I\<close> is the group \<^verbatim>\<open>([+-]?\d+)\<close>. Both are used with
  \<open>match\<close>, which matches a prefix of the text. The matchers return the texts of the groups
  that took part in the match, which is what \<open>filter(None, match.groups())\<close> keeps.
\<close>

fun lit :: "string \<Rightarrow> string \<Rightarrow> string option" where
  "lit [] s = Some s"
| "lit (p # ps) [] = None"
| "lit (p # ps) (c # cs) = (if p = c then lit ps cs else None)"

definition signed_int :: "string \<Rightarrow> (string \<times> string) option" where
  "signed_int s =
     (let (sg, r) = (case s of
                       [] \<Rightarrow> ([], s)
                     | c # t \<Rightarrow> if c = CHR ''+'' \<or> c = CHR ''-'' then ([c], t) else ([], s));
          ds = takeWhile is_digit r
      in if ds = [] then None else Some (sg @ ds, dropWhile is_digit r))"

fun signed_ints :: "nat \<Rightarrow> string \<Rightarrow> (string list \<times> string) option" where
  "signed_ints 0 s = Some ([], s)"
| "signed_ints (Suc n) s =
     (case signed_int s of
        None \<Rightarrow> None
      | Some (g, r) \<Rightarrow>
          if n = 0 then Some ([g], r)
          else (case lit '','' r of
                  None \<Rightarrow> None
                | Some r' \<Rightarrow>
                    (case signed_ints n r' of
                       None \<Rightarrow> None
                     | Some (gs, r'') \<Rightarrow> Some (g # gs, r''))))"

text \<open>\<^verbatim>\<open>,?\)\<close>\<close>

definition closing :: "string \<Rightarrow> string option" where
  "closing s =
     (case lit '','' s of
        Some r \<Rightarrow> (case lit '')'' r of Some r' \<Rightarrow> Some r' | None \<Rightarrow> lit '')'' s)
      | None \<Rightarrow> lit '')'' s)"

definition channels_call :: "string \<Rightarrow> nat \<Rightarrow> string \<Rightarrow> string list option" where
  "channels_call name n s =
     (case lit (name @ ''('') s of
        None \<Rightarrow> None
      | Some r \<Rightarrow>
          (case signed_ints n r of
             None \<Rightarrow> None
           | Some (gs, r') \<Rightarrow> (case closing r' of None \<Rightarrow> None | Some r'' \<Rightarrow> Some gs)))"

definition rgb_re_match :: "string \<Rightarrow> string list option" where
  "rgb_re_match s =
     (case channels_call ''rgb'' 3 s of Some gs \<Rightarrow> Some gs | None \<Rightarrow> channels_call ''rgb'' 4 s)"

definition rgba_re_match :: "string \<Rightarrow> string list option" where
  "rgba_re_match s = channels_call ''rgba'' 4 s"

section \<open>Computed values and the configuration\<close>

datatype color = Color int int int int

datatype compvalue =
    Number real
  | Percentage real
  | ColorV color
  | Auto
  | Normal
  | FontStyleV "string list"
  | Str string

type_synonym style_computed = "string \<rightharpoonup> compvalue"

text \<open>
  The modules \<open>config\<close>, \<open>util\<close> and \<open>own_types\<close> and the colour table of pygame are not
  part of the sources. What the style module takes from them is a parameter of the model:
  \<^item> the tables \<open>abs_length_units\<close>, \<open>abs_border_width\<close>, \<open>abs_font_size\<close>,
    \<open>rel_font_size\<close> and \<open>abs_font_weight\<close> of \<open>config\<close>;
  \<^item> the entries \<open>g["W"]\<close>, \<open>g["H"]\<close> and \<open>g["default_font_size"]\<close> of the global
    dictionary, and what evaluating \<open>g["root"]._style["font-size"]\<close> gives;
  \<^item> the names of \<open>THECOLORS\<close>; the constructor \<open>Color\<close> on a text and on integer
    channels (\<open>None\<close> where it raises \<open>ValueError\<close>); the constructor \<open>FontStyle\<close>;
    the product \<open>mult * Percentage(num)\<close>;
  \<^item> the groups of \<open>split_units_pattern.fullmatch\<close>, which is built from \<open>dec_re\<close> of
    \<open>util\<close> (\<open>None\<close> where it does not match); Python's \<open>float\<close> on a text (\<open>None\<close>
    where it raises \<open>ValueError\<close>); \<open>check_regex\<close> of \<open>util\<close>.
  Floats are modelled by the real numbers they stand for.
\<close>

record config =
  abs_length_units :: "string \<rightharpoonup> real"
  abs_border_width :: "string \<rightharpoonup> compvalue"
  abs_font_size :: "string \<rightharpoonup> real"
  rel_font_size :: "string \<rightharpoonup> real"
  abs_font_weight :: "string \<rightharpoonup> compvalue"
  g_W :: real
  g_H :: real
  g_default_font_size :: real
  g_root_font_size :: "exn + real"
  THECOLORS :: "string list"
  Color_name :: "string \<Rightarrow> color option"
  Color_channels :: "int list \<Rightarrow> color option"
  FontStyle_new :: "string list \<Rightarrow> exn + compvalue"
  Percentage_rmul :: "compvalue \<Rightarrow> real \<Rightarrow> exn + compvalue"
  units_fullmatch :: "string \<Rightarrow> (string \<times> string) option"
  py_float :: "string \<Rightarrow> real option"
  check_regex :: "string \<Rightarrow> string \<Rightarrow> bool"

section \<open>Acceptors\<close>

text \<open>\<open>_length\<close>. The two last cases of its \<open>match\<close> statement differ only in the types of
  the dimension; for a number and a text the first of them raises \<open>ValueError\<close>.\<close>

definition u_length :: "config \<Rightarrow> real \<times> string \<Rightarrow> style_computed \<Rightarrow> exn + real" where
  "u_length cfg dimension p_style =
     (let (num, s) = dimension in
      if num = 0 then Inr 0
      else (case abs_length_units cfg s of
              Some a \<Rightarrow> Inr (a * num)
            | None \<Rightarrow>
                if s = ''em'' then
                  (case p_style ''font-size'' of
                     None \<Rightarrow> Inl KeyError
                   | Some (Number fs) \<Rightarrow> Inr (fs * num)
                   | Some other \<Rightarrow> Inl TypeError)
                else if s = ''rem'' then
                  (case g_root_font_size cfg of Inl e \<Rightarrow> Inl e | Inr fs \<Rightarrow> Inr (fs * num))
                else if s = ''vw'' then Inr (num * 0.01 * g_W cfg)
                else if s = ''vh'' then Inr (num * 0.01 * g_H cfg)
                else if s = ''vmin'' then Inr (num * 0.01 * min (g_W cfg) (g_H cfg))
                else if s = ''vmax'' then Inr (num * 0.01 * max (g_W cfg) (g_H cfg))
                else Inl ValueError))"

definition color :: "config \<Rightarrow> string \<Rightarrow> style_computed \<Rightarrow> exn + compvalue option" where
  "color cfg value p_style =
     (if value = ''currentcolor'' then
        (case p_style ''color'' of None \<Rightarrow> Inl KeyError | Some c \<Rightarrow> Inr (Some c))
      else
        (let value = remove_whitespace value in
         suppress (\<lambda>e. e = ValueError)
           (case (case rgb_re_match value of Some gs \<Rightarrow> Some gs | None \<Rightarrow> rgba_re_match value) of
              Some groups \<Rightarrow>
                (case Color_channels cfg (map py_int groups) of
                   None \<Rightarrow> Inl ValueError
                 | Some c \<Rightarrow> Inr (Some (ColorV c)))
            | None \<Rightarrow>
                (case Color_name cfg value of
                   None \<Rightarrow> Inl ValueError
                 | Some c \<Rightarrow> Inr (Some (ColorV c))))))"

definition split_units :: "config \<Rightarrow> string \<Rightarrow> exn + real \<times> string" where
  "split_units cfg attr =
     (case units_fullmatch cfg (strip attr) of
        None \<Rightarrow> Inl AttributeError
      | Some (num, unit) \<Rightarrow>
          (case py_float cfg num of None \<Rightarrow> Inl ValueError | Some x \<Rightarrow> Inr (x, unit)))"

definition length_acc :: "config \<Rightarrow> string \<Rightarrow> style_computed \<Rightarrow> exn + compvalue option" where
  "length_acc cfg value p_style =
     suppress (\<lambda>e. e = AttributeError)
       (case split_units cfg value of
          Inl e \<Rightarrow> Inl e
        | Inr dimension \<Rightarrow>
            (case u_length cfg dimension p_style of
               Inl e \<Rightarrow> Inl e
             | Inr rv \<Rightarrow> Inr (Some (Number rv))))"

definition length_percentage ::
  "config \<Rightarrow> string \<Rightarrow> style_computed \<Rightarrow> compvalue option \<Rightarrow> exn + compvalue option" where
  "length_percentage cfg value p_style mult =
     suppress (\<lambda>e. e = AttributeError)
       (case split_units cfg value of
          Inl e \<Rightarrow> Inl e
        | Inr (num, unit) \<Rightarrow>
            if unit = ''%'' then
              (case mult of
                 None \<Rightarrow> Inr (Some (Percentage num))
               | Some m \<Rightarrow>
                   (case Percentage_rmul cfg m num of Inl e \<Rightarrow> Inl e | Inr v \<Rightarrow> Inr (Some v)))
            else
              (case u_length cfg (num, unit) p_style of
                 Inl e \<Rightarrow> Inl e
               | Inr rv \<Rightarrow> Inr (Some (Number rv))))"

definition font_size :: "config \<Rightarrow> string \<Rightarrow> style_computed \<Rightarrow> exn + compvalue option" where
  "font_size cfg value p_style =
     (case abs_font_size cfg value of
        Some off \<Rightarrow> Inr (Some (Number (g_default_font_size cfg * 1.2 powr off)))
      | None \<Rightarrow>
          (case p_style ''font-size'' of
             None \<Rightarrow> Inl KeyError
           | Some p_size \<Rightarrow>
               (case rel_font_size cfg value of
                  Some off \<Rightarrow>
                    (case p_size of
                       Number ps \<Rightarrow> Inr (Some (Number (ps * 1.2 powr off)))
                     | other \<Rightarrow> Inl TypeError)
                | None \<Rightarrow> length_percentage cfg value p_style (Some p_size))))"

definition font_weight :: "config \<Rightarrow> string \<Rightarrow> style_computed \<Rightarrow> exn + compvalue option" where
  "font_weight cfg value p_style =
     (case p_style ''font-weight'' of
        None \<Rightarrow> Inl KeyError
      | Some p \<Rightarrow>
          if value = ''lighter'' then
            (case p of
               Number p_size \<Rightarrow>
                 if p_size < 100 then Inr (Some (Number p_size))
                 else if p_size < 550 then Inr (Some (Number 100))
                 else if p_size < 700 then Inr (Some (Number 400))
                 else if p_size \<le> 1000 then Inr (Some (Number 700))
                 else Inl ValueError
             | other \<Rightarrow> Inl TypeError)
          else if value = ''bolder'' then
            (case p of
               Number p_size \<Rightarrow>
                 if p_size < 350 then Inr (Some (Number 400))
                 else if p_size < 550 then Inr (Some (Number 700))
                 else if p_size < 900 then Inr (Some (Number 900))
                 else Inr (Some (Number p_size))
             | other \<Rightarrow> Inl TypeError)
          else
            suppress (\<lambda>e. e = ValueError)
              (case py_float cfg value of
                 None \<Rightarrow> Inl ValueError
               | Some n \<Rightarrow> if 0 < n \<and> n \<le> 1000 then Inr (Some (Number n)) else Inr None))"

definition font_style :: "config \<Rightarrow> string \<Rightarrow> style_computed \<Rightarrow> exn + compvalue option" where
  "font_style cfg value p_style =
     suppress is_AssertionError
       (case FontStyle_new cfg (take 2 (py_split value)) of
          Inl e \<Rightarrow> Inl e
        | Inr v \<Rightarrow> Inr (Some v))"

text \<open>\<open>noop\<close> is imported from \<open>util\<close>; it is the default acceptor of a property that has
  keywords only, and is taken to return \<open>None\<close>.\<close>

definition noop :: "string \<Rightarrow> style_computed \<Rightarrow> exn + compvalue option" where
  "noop value p_style = Inr None"

definition no_change :: "string \<Rightarrow> style_computed \<Rightarrow> exn + compvalue option" where
  "no_change value p_style = Inr (Some (Str value))"

section \<open>The property registry\<close>

text \<open>The acceptor of a property is a function value in the source, and the constructor of
  \<open>StyleAttr\<close> compares it with \<open>length_percentage\<close> by identity. Here it is a tag, and
  \<open>call_acceptor\<close> is the call \<open>attr.accept(value, p_style)\<close>.\<close>

datatype acceptor =
    Acc_noop
  | Acc_color
  | Acc_font_weight
  | Acc_no_change
  | Acc_font_size
  | Acc_font_style
  | Acc_length_percentage

fun call_acceptor ::
  "config \<Rightarrow> acceptor \<Rightarrow> string \<Rightarrow> style_computed \<Rightarrow> exn + compvalue option" where
  "call_acceptor cfg Acc_noop value p_style = noop value p_style"
| "call_acceptor cfg Acc_color value p_style = color cfg value p_style"
| "call_acceptor cfg Acc_font_weight value p_style = font_weight cfg value p_style"
| "call_acceptor cfg Acc_no_change value p_style = no_change value p_style"
| "call_acceptor cfg Acc_font_size value p_style = font_size cfg value p_style"
| "call_acceptor cfg Acc_font_style value p_style = font_style cfg value p_style"
| "call_acceptor cfg Acc_length_percentage value p_style =
     length_percentage cfg value p_style None"

record StyleAttr =
  initial :: string
  kws :: "string \<rightharpoonup> compvalue"
  accept :: acceptor
  inherits :: bool

text \<open>\<open>StyleAttr.set2dict\<close> on a set of texts, and \<open>StyleAttr.__init__\<close>.\<close>

definition set2dict :: "string list \<Rightarrow> (string \<rightharpoonup> compvalue)" where
  "set2dict s = map_of (map (\<lambda>x. (x, Str x)) s)"

definition StyleAttr_init ::
  "string \<Rightarrow> (string \<rightharpoonup> compvalue) \<Rightarrow> acceptor \<Rightarrow> bool option \<Rightarrow> StyleAttr" where
  "StyleAttr_init ini kw acc inh =
     \<lparr>initial = ini, kws = kw, accept = acc,
      inherits = (case inh of None \<Rightarrow> acc \<noteq> Acc_length_percentage | Some b \<Rightarrow> b)\<rparr>"

definition convert ::
  "config \<Rightarrow> StyleAttr \<Rightarrow> string \<Rightarrow> style_computed \<Rightarrow> exn + compvalue option" where
  "convert cfg attr value p_style =
     (case kws attr value of
        Some kw \<Rightarrow> Inr (Some kw)
      | None \<Rightarrow> call_acceptor cfg (accept attr) value p_style)"

definition auto :: "string \<rightharpoonup> compvalue" where
  "auto = [''auto'' \<mapsto> Auto]"

definition normal :: "string \<rightharpoonup> compvalue" where
  "normal = [''normal'' \<mapsto> Normal]"

definition AALP :: StyleAttr where
  "AALP = StyleAttr_init ''auto'' auto Acc_length_percentage None"

definition BorderWidthAttr :: "config \<Rightarrow> StyleAttr" where
  "BorderWidthAttr cfg =
     StyleAttr_init ''medium'' (abs_border_width cfg) Acc_length_percentage None"

definition BorderStyleAttr :: StyleAttr where
  "BorderStyleAttr =
     StyleAttr_init ''none''
       (set2dict [''none'', ''hidden'', ''dotted'', ''dashed'', ''solid'', ''double'',
                  ''groove'', ''ridge'', ''inset'', ''outset''])
       Acc_noop (Some False)"

definition directions :: "string list" where
  "directions = [''top'', ''right'', ''bottom'', ''left'']"

text \<open>Modelled from the spec: the key tuples \<open>inset_keys\<close>, \<open>pad_keys\<close>, \<open>marg_keys\<close>,
  \<open>bw_keys\<close>, \<open>bc_keys\<close> and \<open>bs_keys\<close> of \<open>util\<close> are not part of the sources. The
  specification registers one property for each of the four sides of the inset, the padding,
  the margin and the border width, colour and style; the names are the longhand names that
  the directional shorthands of \<open>dir_shorthands\<close> produce.\<close>

definition inset_keys :: "string list" where
  "inset_keys = directions"

definition pad_keys :: "string list" where
  "pad_keys = map (\<lambda>k. ''padding-'' @ k) directions"

definition marg_keys :: "string list" where
  "marg_keys = map (\<lambda>k. ''margin-'' @ k) directions"

definition bw_keys :: "string list" where
  "bw_keys = map (\<lambda>k. ''border-'' @ k @ ''-width'') directions"

definition bc_keys :: "string list" where
  "bc_keys = map (\<lambda>k. ''border-'' @ k @ ''-color'') directions"

definition bs_keys :: "string list" where
  "bs_keys = map (\<lambda>k. ''border-'' @ k @ ''-style'') directions"

definition style_attrs :: "config \<Rightarrow> StyleAttr dict" where
  "style_attrs cfg = dict_of
     ([(''color'', StyleAttr_init ''canvastext'' Map.empty Acc_color None),
       (''font-weight'', StyleAttr_init ''normal'' (abs_font_weight cfg) Acc_font_weight None),
       (''font-family'', StyleAttr_init ''Arial'' Map.empty Acc_no_change None),
       (''font-size'', StyleAttr_init ''medium'' Map.empty Acc_font_size None),
       (''font-style'', StyleAttr_init ''normal'' Map.empty Acc_font_style None),
       (''line-height'', StyleAttr_init ''normal'' normal Acc_length_percentage (Some True)),
       (''word-spacing'', StyleAttr_init ''normal'' normal Acc_length_percentage (Some True)),
       (''display'',
          StyleAttr_init ''inline'' (set2dict [''inline'', ''block'', ''none'']) Acc_noop None),
       (''background-color'', StyleAttr_init ''transparent'' Map.empty Acc_color None),
       (''width'', AALP),
       (''height'', AALP),
       (''position'',
          StyleAttr_init ''static''
            (set2dict [''static'', ''relative'', ''absolute'', ''sticky'', ''fixed''])
            Acc_noop None),
       (''box-sizing'',
          StyleAttr_init ''content-box'' (set2dict [''content-box'', ''border-box''])
            Acc_noop None)]
      @ map (\<lambda>key. (key, AALP)) (inset_keys @ pad_keys @ marg_keys)
      @ map (\<lambda>key. (key, BorderWidthAttr cfg)) bw_keys
      @ map (\<lambda>key. (key, StyleAttr_init ''currentcolor'' Map.empty Acc_color None)) bc_keys
      @ map (\<lambda>key. (key, BorderStyleAttr)) bs_keys)"

section \<open>Cascade merge\<close>

text \<open>A \<open>Style\<close> maps a property name to its value and the importance flag. The keys of the
  result of \<open>join_styles\<close> come from two sets, so the result is modelled as a map.\<close>

type_synonym Style = "string \<rightharpoonup> string \<times> bool"

definition join_styles :: "Style \<Rightarrow> Style \<Rightarrow> Style" where
  "join_styles style1 style2 =
     (let fused = style1 ++ style2 in
      (fused |` ((dom style1 - dom style2) \<union> (dom style2 - dom style1)))
      ++ ((\<lambda>k. if snd (the (style2 k)) \<and> \<not> snd (the (style1 k)) then style2 k else style1 k)
            |` (dom style1 \<inter> dom style2)))"

section \<open>Shorthand expansion\<close>

text \<open>\<open>colors\<close>: \<open>THECOLORS\<close> has been updated with \<open>canvastext\<close> and \<open>transparent\<close>.\<close>

definition colors :: "config \<Rightarrow> string list" where
  "colors cfg = ''currentcolor'' # THECOLORS cfg @ [''canvastext'', ''transparent'']"

text \<open>The validators of \<open>guessing\<close> return what Python then reads as a truth value: the
  colour that \<open>color\<close> returns counts as true, \<open>None\<close> as false.\<close>

definition guessing :: "config \<Rightarrow> string \<Rightarrow> (string \<Rightarrow> exn + bool) option" where
  "guessing cfg name =
     (if name = ''border-width'' then
        Some (\<lambda>value. Inr (kws BorderStyleAttr value \<noteq> None))
      else if name = ''border-color'' then
        Some (\<lambda>value.
          if value \<in> set (colors cfg) then Inr True
          else (case color cfg value [''color'' \<mapsto> Str ''black''] of
                  Inl e \<Rightarrow> Inl e
                | Inr None \<Rightarrow> Inr False
                | Inr (Some c) \<Rightarrow> Inr True))
      else if name = ''border-style'' then
        Some (\<lambda>value.
          Inr (kws (BorderWidthAttr cfg) value \<noteq> None \<or> check_regex cfg ''dimension'' value))
      else None)"

definition global_values :: "string list" where
  "global_values = [''inherit'', ''initial'', ''unset'', ''revert'']"

definition dir_fallbacks :: "string dict" where
  "dir_fallbacks = [(''right'', ''top''), (''bottom'', ''top''), (''left'', ''right'')]"

text \<open>A format string with one field \<open>{}\<close> is the text before and the text after the
  field.\<close>

definition format :: "string \<times> string \<Rightarrow> string \<Rightarrow> string" where
  "format fstring k = fst fstring @ k @ snd fstring"

definition dir_shorthands :: "(string \<times> string) dict" where
  "dir_shorthands = dict_of
     [(''margin'', (''margin-'', [])),
      (''padding'', (''padding-'', [])),
      (''border-width'', (''border-'', ''-width'')),
      (''border-color'', (''border-'', ''-color'')),
      (''border-style'', (''border-'', ''-style'')),
      (''inset'', ([], []))]"

text \<open>The values of \<open>smart_shorthands\<close> are sets of texts in the source, and the order in
  which Python iterates over such a set is not fixed. Here a set is the list of its members
  as the source writes them.\<close>

definition smart_shorthands :: "string list dict" where
  "smart_shorthands = dict_of
     ((''border'', [''border-width'', ''border-style'', ''border-color''])
      # map (\<lambda>k. (''border-'' @ k,
                  [''border-'' @ k @ ''-width'', ''border-'' @ k @ ''-style'',
                   ''border-'' @ k @ ''-color'']))
          directions)"

text \<open>\<open>group_by_bool\<close> is imported from \<open>util\<close>: both of its callers take the items that
  satisfy the test first and the others second.\<close>

definition group_by_bool :: "'a list \<Rightarrow> ('a \<Rightarrow> bool) \<Rightarrow> 'a list \<times> 'a list" where
  "group_by_bool l key = (filter key l, filter (\<lambda>x. \<not> key x) l)"

definition is_valid :: "config \<Rightarrow> string \<Rightarrow> string \<Rightarrow> exn + bool" where
  "is_valid cfg name value =
     (if name \<in> set global_values then Inr True
      else (case guessing cfg name of
              Some validator \<Rightarrow> validator value
            | None \<Rightarrow>
                (case map_of (style_attrs cfg) name of
                   Some attr \<Rightarrow>
                     if kws attr name \<noteq> None then Inr True
                     else (case call_acceptor cfg (accept attr) value Map.empty of
                             Inl e \<Rightarrow> if e = KeyError then Inr True else Inl e
                           | Inr None \<Rightarrow> Inr False
                           | Inr (Some v) \<Rightarrow> Inr True)
                 | None \<Rightarrow> Inr False)))"

text \<open>The loop of \<open>split\<close>: the state is \<open>rec\<close>, \<open>result\<close>, \<open>curr_string\<close> and
  \<open>brackets\<close>.\<close>

fun split_loop ::
  "string \<Rightarrow> bool \<times> string list \<times> string \<times> nat \<Rightarrow> exn + bool \<times> string list \<times> string \<times> nat"
  where
  "split_loop [] st = Inr st"
| "split_loop (c # cs) (rec, result, curr_string, brackets) =
     (let is_w = is_space c;
          (rec, result, curr_string) =
             (if rec \<and> brackets = 0 \<and> is_w then (False, result @ [curr_string], [])
              else (rec, result, curr_string));
          (rec, curr_string) =
             (if \<not> is_w then (True, curr_string @ [c]) else (rec, curr_string))
      in if c = CHR ''('' then split_loop cs (rec, result, curr_string, brackets + 1)
         else if c = CHR '')'' then
           (if brackets = 0 then Inl (AssertionError None)
            else split_loop cs (rec, result, curr_string, brackets - 1))
         else split_loop cs (rec, result, curr_string, brackets))"

definition split :: "string \<Rightarrow> exn + string list" where
  "split s =
     (case split_loop s (True, [], [], 0) of
        Inl e \<Rightarrow> Inl e
      | Inr (rec, result, curr_string, brackets) \<Rightarrow>
          Inr (if rec then result @ [curr_string] else result))"

text \<open>\<open>for k in directions[len(_res):]: _res[k] = _res[dir_fallbacks[k]]\<close>\<close>

fun fill_fallbacks :: "string list \<Rightarrow> string dict \<Rightarrow> exn + string dict" where
  "fill_fallbacks [] res = Inr res"
| "fill_fallbacks (k # ks) res =
     (case map_of dir_fallbacks k of
        None \<Rightarrow> Inl KeyError
      | Some f \<Rightarrow>
          (case map_of res f of
             None \<Rightarrow> Inl KeyError
           | Some v \<Rightarrow> fill_fallbacks ks (dict_set res k v)))"

text \<open>\<open>{k: v for v in arr for k in shorthand if is_valid(k, v)}\<close>, over the pairs of a token
  and a sub-property in the order of the two loops.\<close>

fun smart_assign ::
  "config \<Rightarrow> (string \<times> string) list \<Rightarrow> string dict \<Rightarrow> exn + string dict" where
  "smart_assign cfg [] result = Inr result"
| "smart_assign cfg ((v, k) # vks) result =
     (case is_valid cfg k v of
        Inl e \<Rightarrow> Inl e
      | Inr ok \<Rightarrow> smart_assign cfg vks (if ok then dict_set result k v else result))"

text \<open>\<open>a ^ b\<close> on two sets of keys.\<close>

definition sym_diff :: "string list \<Rightarrow> string list \<Rightarrow> string list" where
  "sym_diff a b = filter (\<lambda>k. k \<notin> set b) a @ filter (\<lambda>k. k \<notin> set a) b"

definition process_property :: "config \<Rightarrow> string \<Rightarrow> string \<Rightarrow> exn + string dict" where
  "process_property cfg key value =
     (case split value of
        Inl e \<Rightarrow> Inl e
      | Inr arr \<Rightarrow>
          if key = ''all'' then
            (if length arr \<noteq> 1 then Inl (AssertionError None)
             else if value \<notin> set global_values then Inl (AssertionError None)
             else Inr (dict_of (map (\<lambda>k. (k, value)) (map fst (style_attrs cfg)))))
          else
            (case map_of dir_shorthands key of
               Some fstring \<Rightarrow>
                 if \<not> length arr \<le> length directions then
                   Inl (AssertionError (Some (Too_many_values (length arr) (length directions))))
                 else
                   (let res0 = dict_of (zip directions arr) in
                    case fill_fallbacks (drop (length res0) directions) res0 of
                      Inl e \<Rightarrow> Inl e
                    | Inr res \<Rightarrow> Inr (dict_of (map (\<lambda>(k, v). (format fstring k, v)) res)))
             | None \<Rightarrow>
                 (case map_of smart_shorthands key of
                    Some shorthand \<Rightarrow>
                      if \<not> length arr \<le> length shorthand then
                        Inl (AssertionError
                               (Some (Too_many_values_max (length arr) (length shorthand))))
                      else
                        (case smart_assign cfg (List.product arr shorthand) [] of
                           Inl e \<Rightarrow> Inl e
                         | Inr result \<Rightarrow>
                             (let left = sym_diff shorthand (map fst result) in
                              if left \<noteq> [] then Inl (AssertionError (Some (Invalid_keys left)))
                              else Inr result))
                  | None \<Rightarrow>
                      (case arr of
                         [value] \<Rightarrow>
                           if map_of (style_attrs cfg) key = None then
                             Inl (AssertionError (Some Unknown_Property))
                           else
                             (case is_valid cfg key value of
                                Inl e \<Rightarrow> Inl e
                              | Inr ok \<Rightarrow>
                                  if \<not> ok then Inl (AssertionError (Some Invalid_Value))
                                  else Inr [(key, value)])
                       | other \<Rightarrow> Inl (AssertionError None)))))"

text \<open>
  \<open>process_input\<close>. The state of its inner function is the dictionary \<open>done\<close> together with
  the messages that \<open>log_error\<close> has received, each the message of the failed assertion, the
  key and the value. The handler evaluates \<open>e.args[0]\<close>, which raises \<open>IndexError\<close> for an
  assertion that failed without a message.
\<close>

type_synonym log = "(assert_msg \<times> string \<times> string) list"

fun inner ::
  "config \<Rightarrow> (string \<times> string) list \<Rightarrow> string dict \<times> log \<Rightarrow> exn + string dict \<times> log" where
  "inner cfg [] st = Inr st"
| "inner cfg ((key, value) # d) (done, logged) =
     (case process_property cfg key value of
        Inr m \<Rightarrow> inner cfg d (dict_update done m, logged)
      | Inl (AssertionError (Some msg)) \<Rightarrow> inner cfg d (done, logged @ [(msg, key, value)])
      | Inl (AssertionError None) \<Rightarrow> Inl IndexError
      | Inl e \<Rightarrow> Inl e)"

text \<open>The \<open>while True\<close> loop of \<open>process_input\<close>. It has no bound in the source, so not
  returning is the value \<open>None\<close> of the model.\<close>

partial_function (option) expand_loop ::
  "config \<Rightarrow> string dict \<times> log \<Rightarrow> (exn + string dict \<times> log) option" where
  "expand_loop cfg st =
     (let split_items = group_by_bool (fst st) (\<lambda>item. map_of (style_attrs cfg) (fst item) \<noteq> None);
          done = dict_of (fst split_items);
          todo = snd split_items
      in if todo = [] then Some (Inr (done, snd st))
         else (case inner cfg todo (done, snd st) of
                 Inl e \<Rightarrow> Some (Inl e)
               | Inr st' \<Rightarrow> expand_loop cfg st'))"

declare expand_loop.simps [code]

definition process_input ::
  "config \<Rightarrow> (string \<times> string) list \<Rightarrow> (exn + string dict \<times> log) option" where
  "process_input cfg d =
     (case inner cfg d ([], []) of
        Inl e \<Rightarrow> Some (Inl e)
      | Inr st \<Rightarrow> expand_loop cfg st)"

section \<open>An example configuration\<close>

text \<open>
  A configuration to run the model on concrete declarations. Its tables are small stand-ins
  for those of \<open>config\<close>. A decimal literal is an optional sign, digits and an optional
  fraction; the unit after it is a run of word characters or the percent sign, as in
  \<open>split_units_pattern\<close>; a dimension is what that pattern matches.
\<close>

definition is_word_char :: "char \<Rightarrow> bool" where
  "is_word_char c =
     (let n = (of_char c :: nat)
      in (48 \<le> n \<and> n \<le> 57) \<or> (65 \<le> n \<and> n \<le> 90) \<or> (97 \<le> n \<and> n \<le> 122) \<or> n = 95)"

definition take_sign :: "string \<Rightarrow> string \<times> string" where
  "take_sign s =
     (case s of
        [] \<Rightarrow> ([], s)
      | c # t \<Rightarrow> if c = CHR ''+'' \<or> c = CHR ''-'' then ([c], t) else ([], s))"

definition take_fraction :: "string \<Rightarrow> string \<times> string" where
  "take_fraction s =
     (case s of
        [] \<Rightarrow> ([], s)
      | c # t \<Rightarrow>
          if c = CHR ''.'' \<and> takeWhile is_digit t \<noteq> []
          then (c # takeWhile is_digit t, dropWhile is_digit t)
          else ([], s))"

definition example_units_fullmatch :: "string \<Rightarrow> (string \<times> string) option" where
  "example_units_fullmatch s =
     (let (sg, r) = take_sign s;
          ip = takeWhile is_digit r;
          (fp, unit) = take_fraction (dropWhile is_digit r)
      in if ip = [] then None
         else if unit = ''%'' \<or> list_all is_word_char unit then Some (sg @ ip @ fp, unit)
         else None)"

definition example_float :: "string \<Rightarrow> real option" where
  "example_float s =
     (let (sg, r) = take_sign s;
          ip = takeWhile is_digit r;
          (fp, rest) = take_fraction (dropWhile is_digit r);
          x = real_of_int (digits_value ip)
              + real_of_int (digits_value (drop 1 fp)) / 10 ^ (length fp - 1)
      in if ip = [] \<or> rest \<noteq> [] then None
         else Some (if sg = ''-'' then - x else x))"

definition example_channels :: "int list \<Rightarrow> color option" where
  "example_channels cs =
     (if list_all (\<lambda>c. 0 \<le> c \<and> c \<le> 255) cs then
        (case cs of
           [r, g, b] \<Rightarrow> Some (Color r g b 255)
         | [r, g, b, a] \<Rightarrow> Some (Color r g b a)
         | other \<Rightarrow> None)
      else None)"

definition example_config :: config where
  "example_config =
     \<lparr>abs_length_units = [''px'' \<mapsto> 1, ''in'' \<mapsto> 96, ''pt'' \<mapsto> 4 / 3],
      abs_border_width = [''thin'' \<mapsto> Number 1, ''medium'' \<mapsto> Number 3, ''thick'' \<mapsto> Number 5],
      abs_font_size = [''small'' \<mapsto> - 1, ''medium'' \<mapsto> 0, ''large'' \<mapsto> 1],
      rel_font_size = [''smaller'' \<mapsto> - 1, ''larger'' \<mapsto> 1],
      abs_font_weight = [''normal'' \<mapsto> Number 400, ''bold'' \<mapsto> Number 700],
      g_W = 900,
      g_H = 600,
      g_default_font_size = 16,
      g_root_font_size = Inr 16,
      THECOLORS = [''black'', ''white'', ''red'', ''green'', ''blue''],
      Color_name = map_of
        [(''black'', Color 0 0 0 255), (''white'', Color 255 255 255 255),
         (''red'', Color 255 0 0 255), (''green'', Color 0 255 0 255),
         (''blue'', Color 0 0 255 255), (''canvastext'', Color 0 0 0 255),
         (''transparent'', Color 0 0 0 0)],
      Color_channels = example_channels,
      FontStyle_new =
        (\<lambda>args. if args \<in> set [[''normal''], [''italic''], [''oblique'']]
                 then Inr (FontStyleV args) else Inl (AssertionError None)),
      Percentage_rmul =
        (\<lambda>m num. case m of Number x \<Rightarrow> Inr (Number (x * num * 0.01)) | other \<Rightarrow> Inl TypeError),
      units_fullmatch = example_units_fullmatch,
      py_float = example_float,
      check_regex = (\<lambda>name v. name = ''dimension'' \<and> example_units_fullmatch v \<noteq> None)\<rparr>"

section \<open>Notions used in the statements\<close>

text \<open>The units that \<open>_length\<close> converts: the keys of \<open>abs_length_units\<close> and the relative
  units of its \<open>match\<close> statement.\<close>

definition accepted_unit :: "config \<Rightarrow> string \<Rightarrow> bool" where
  "accepted_unit cfg s =
     (abs_length_units cfg s \<noteq> None \<or> s \<in> set [''em'', ''rem'', ''vw'', ''vh'', ''vmin'', ''vmax''])"

text \<open>The names of the registered properties, in the order of \<open>style_attrs\<close>.\<close>

definition style_keys :: "string list" where
  "style_keys =
     [''color'', ''font-weight'', ''font-family'', ''font-size'', ''font-style'', ''line-height'',
      ''word-spacing'', ''display'', ''background-color'', ''width'', ''height'', ''position'',
      ''box-sizing'']
     @ inset_keys @ pad_keys @ marg_keys @ bw_keys @ bc_keys @ bs_keys"

text \<open>How far a key is from the registry: a registered property is at 0; the three
  shorthands a \<open>border\<close> declaration expands to are at 1; every other key is at 2.\<close>

definition rank :: "string \<Rightarrow> nat" where
  "rank k =
     (if k \<in> set style_keys then 0
      else if k \<in> set [''border-width'', ''border-style'', ''border-color''] then 1
      else 2)"

section \<open>Dictionaries and the keys of an expansion\<close>

lemma dict_set_keys: "fst ` set (dict_set d k v) = insert k (fst ` set d)"
  by (induction d k v rule: dict_set.induct) auto

lemma dict_update_keys: "fst ` set (dict_update d kvs) = fst ` set d \<union> fst ` set kvs"
  by (induction d kvs rule: dict_update.induct) (auto simp: dict_set_keys)

lemma dict_of_keys: "fst ` set (dict_of kvs) = fst ` set kvs"
  by (simp add: dict_of_def dict_update_keys)

lemma map_of_dict_set: "map_of (dict_set d k v) = (map_of d)(k \<mapsto> v)"
  by (induction d k v rule: dict_set.induct) auto

lemma map_of_dict_update: "map_of (dict_update d kvs) = map_of d ++ map_of (rev kvs)"
  by (induction d kvs rule: dict_update.induct)
     (auto simp: map_of_dict_set map_add_def fun_eq_iff split: option.splits)

lemma map_of_dict_of: "map_of (dict_of kvs) = map_of (rev kvs)"
  by (simp add: dict_of_def map_of_dict_update)

lemma dict_of_SomeD: "map_of (dict_of kvs) k = Some v \<Longrightarrow> (k, v) \<in> set kvs"
  using map_of_SomeD [of "rev kvs" k v] by (simp add: map_of_dict_of)

lemma dict_set_fresh: "k \<notin> fst ` set d \<Longrightarrow> dict_set d k v = d @ [(k, v)]"
  by (induction d k v rule: dict_set.induct) auto

lemma dict_update_fresh:
  "distinct (map fst kvs) \<Longrightarrow> fst ` set d \<inter> fst ` set kvs = {} \<Longrightarrow>
   dict_update d kvs = d @ kvs"
proof (induction d kvs rule: dict_update.induct)
  case (1 d)
  then show ?case by simp
next
  case (2 d k v kvs)
  then have "k \<notin> fst ` set d" by auto
  then have "dict_set d k v = d @ [(k, v)]" by (rule dict_set_fresh)
  with 2 show ?case by auto
qed

lemma dict_of_distinct: "distinct (map fst kvs) \<Longrightarrow> dict_of kvs = kvs"
  by (simp add: dict_of_def dict_update_fresh)

lemma style_attrs_key_set: "fst ` set (style_attrs cfg) = set style_keys"
proof -
  have "fst ` set (style_attrs cfg) = set (map fst (rev (rev (style_attrs cfg))))"
    by simp
  show ?thesis
    unfolding style_attrs_def dict_of_keys style_keys_def
    by (simp add: image_Un image_image)
qed

lemma registered_iff: "(map_of (style_attrs cfg) k \<noteq> None) = (k \<in> set style_keys)"
  by (simp add: map_of_eq_None_iff style_attrs_key_set)

lemma rank_0: "(rank k = 0) = (k \<in> set style_keys)"
  by (simp add: rank_def)

lemma rank_le_1:
  "(rank k \<le> Suc 0) = (k \<in> set style_keys \<or> k \<in> set [''border-width'', ''border-style'', ''border-color''])"
  by (simp add: rank_def)

lemma rank_le_2: "rank k \<le> 2"
  by (simp add: rank_def)

lemma dir_shorthands_cases:
  "map_of dir_shorthands key = Some fstring \<Longrightarrow>
   (key, fstring) \<in> set
     [(''margin'', (''margin-'', [])), (''padding'', (''padding-'', [])),
      (''border-width'', (''border-'', ''-width'')), (''border-color'', (''border-'', ''-color'')),
      (''border-style'', (''border-'', ''-style'')), (''inset'', ([], []))]"
  unfolding dir_shorthands_def by (rule dict_of_SomeD)

lemma dir_keys_registered:
  "map_of dir_shorthands key = Some fstring \<Longrightarrow> d \<in> set directions \<Longrightarrow>
   format fstring d \<in> set style_keys"
  by (drule dir_shorthands_cases)
     (auto simp: format_def style_keys_def inset_keys_def pad_keys_def marg_keys_def
                 bw_keys_def bc_keys_def bs_keys_def)

lemma smart_shorthands_cases:
  "map_of smart_shorthands key = Some shorthand \<Longrightarrow>
   (key = ''border'' \<and> shorthand = [''border-width'', ''border-style'', ''border-color''])
   \<or> (\<exists>d \<in> set directions. key = ''border-'' @ d \<and>
         shorthand = [''border-'' @ d @ ''-width'', ''border-'' @ d @ ''-style'',
                      ''border-'' @ d @ ''-color''])"
  unfolding smart_shorthands_def by (drule dict_of_SomeD) auto

lemma side_keys_registered:
  "d \<in> set directions \<Longrightarrow>
   k \<in> set [''border-'' @ d @ ''-width'', ''border-'' @ d @ ''-style'', ''border-'' @ d @ ''-color'']
   \<Longrightarrow> k \<in> set style_keys"
proof -
  assume d: "d \<in> set directions"
    and "k \<in> set [''border-'' @ d @ ''-width'', ''border-'' @ d @ ''-style'', ''border-'' @ d @ ''-color'']"
  then have "k = ''border-'' @ d @ ''-width'' \<or> k = ''border-'' @ d @ ''-style''
             \<or> k = ''border-'' @ d @ ''-color''"
    by simp
  with d have "k \<in> set bw_keys \<union> set bs_keys \<union> set bc_keys"
    unfolding bw_keys_def bs_keys_def bc_keys_def set_map by blast
  then show ?thesis
    unfolding style_keys_def set_append by blast
qed

lemma smart_keys_rank:
  assumes "map_of smart_shorthands key = Some shorthand" and "k \<in> set shorthand"
  shows "rank k \<le> Suc 0"
proof -
  from smart_shorthands_cases [OF assms(1)]
  have "shorthand = [''border-width'', ''border-style'', ''border-color'']
        \<or> (\<exists>d \<in> set directions.
              shorthand = [''border-'' @ d @ ''-width'', ''border-'' @ d @ ''-style'',
                           ''border-'' @ d @ ''-color''])"
    by blast
  then show ?thesis
  proof
    assume "shorthand = [''border-width'', ''border-style'', ''border-color'']"
    with assms(2) show ?thesis unfolding rank_le_1 by blast
  next
    assume "\<exists>d \<in> set directions.
              shorthand = [''border-'' @ d @ ''-width'', ''border-'' @ d @ ''-style'',
                           ''border-'' @ d @ ''-color'']"
    then obtain d where "d \<in> set directions"
      and "shorthand = [''border-'' @ d @ ''-width'', ''border-'' @ d @ ''-style'',
                        ''border-'' @ d @ ''-color'']"
      by blast
    with assms(2) have "k \<in> set style_keys"
      using side_keys_registered by blast
    then show ?thesis unfolding rank_le_1 by blast
  qed
qed

lemma fill_fallbacks_keys:
  "fill_fallbacks ks res = Inr res' \<Longrightarrow> fst ` set res' = fst ` set res \<union> set ks"
  by (induction ks res rule: fill_fallbacks.induct)
     (auto simp: dict_set_keys split: option.splits)

lemma smart_assign_keys:
  "smart_assign cfg vks result = Inr result' \<Longrightarrow>
   fst ` set result' \<subseteq> fst ` set result \<union> snd ` set vks"
  by (induction cfg vks result rule: smart_assign.induct)
     (auto simp: dict_set_keys split: sum.splits if_splits)

section \<open>Cascade merge\<close>

text \<open>
  C4. For every two styles and every key, \<open>join_styles\<close> takes the declaration of the second
  style for a key of both only if the second declaration is important and the first is not,
  and keeps the declaration of the first style otherwise; a key of exactly one of the two
  styles keeps its declaration, and a key of neither is not in the result.
\<close>

theorem join_styles_merge_rule:
  "join_styles style1 style2 k =
     (case style1 k of
        None \<Rightarrow> style2 k
      | Some a \<Rightarrow>
          (case style2 k of
             None \<Rightarrow> Some a
           | Some b \<Rightarrow> if snd b \<and> \<not> snd a then Some b else Some a))"
  by (auto simp: join_styles_def Let_def map_add_def restrict_map_def dom_def
           split: option.splits)

text \<open>Red merged with an important blue is blue; an important red merged with blue is red.\<close>

theorem join_styles_merge_rule_witness:
  "join_styles [''color'' \<mapsto> (''red'', False)] [''color'' \<mapsto> (''blue'', True)] ''color''
     = Some (''blue'', True)
   \<and> join_styles [''color'' \<mapsto> (''red'', True)] [''color'' \<mapsto> (''blue'', False)] ''color''
     = Some (''red'', True)"
  using join_styles_merge_rule
          [of "[''color'' \<mapsto> (''red'', False)]" "[''color'' \<mapsto> (''blue'', True)]" "''color''"]
        join_styles_merge_rule
          [of "[''color'' \<mapsto> (''red'', True)]" "[''color'' \<mapsto> (''blue'', False)]" "''color''"]
  by simp

section \<open>Relative font weights\<close>

text \<open>
  C5. With a parent weight \<open>p\<close>, \<open>font_weight\<close> maps \<open>lighter\<close> to \<open>p\<close> itself below 100,
  to 100 below 550, to 400 below 700, to 700 up to 1000, and raises \<open>ValueError\<close> above
  1000; it maps \<open>bolder\<close> to 400 below 350, to 700 below 550, to 900 below 900 and to \<open>p\<close>
  itself from 900 on. Any other text that \<open>float\<close> reads as \<open>n\<close> is accepted, as \<open>n\<close>
  itself, exactly when \<open>0 < n \<le> 1000\<close>, and gives \<open>None\<close> otherwise.
\<close>

theorem font_weight_thresholds:
  assumes "p_style ''font-weight'' = Some (Number p)"
  shows "font_weight cfg ''lighter'' p_style =
           (if p < 100 then Inr (Some (Number p))
            else if p < 550 then Inr (Some (Number 100))
            else if p < 700 then Inr (Some (Number 400))
            else if p \<le> 1000 then Inr (Some (Number 700))
            else Inl ValueError)
       \<and> font_weight cfg ''bolder'' p_style =
           (if p < 350 then Inr (Some (Number 400))
            else if p < 550 then Inr (Some (Number 700))
            else if p < 900 then Inr (Some (Number 900))
            else Inr (Some (Number p)))
       \<and> (\<forall>value n.
             value \<noteq> ''lighter'' \<and> value \<noteq> ''bolder'' \<and> py_float cfg value = Some n \<longrightarrow>
               (font_weight cfg value p_style = Inr (Some (Number n))) = (0 < n \<and> n \<le> 1000)
               \<and> (\<not> (0 < n \<and> n \<le> 1000) \<longrightarrow> font_weight cfg value p_style = Inr None))"
  using assms by (auto simp: font_weight_def suppress_def)

text \<open>Lighter at 600 is 400 and at 750 is 700; bolder at 300 is 400 and at 950 is 950.\<close>

theorem font_weight_thresholds_witness:
  "font_weight example_config ''lighter'' [''font-weight'' \<mapsto> Number 600] = Inr (Some (Number 400))
   \<and> font_weight example_config ''lighter'' [''font-weight'' \<mapsto> Number 750] = Inr (Some (Number 700))
   \<and> font_weight example_config ''bolder'' [''font-weight'' \<mapsto> Number 300] = Inr (Some (Number 400))
   \<and> font_weight example_config ''bolder'' [''font-weight'' \<mapsto> Number 950] = Inr (Some (Number 950))"
  using font_weight_thresholds [of "[''font-weight'' \<mapsto> Number 600]" 600 example_config]
        font_weight_thresholds [of "[''font-weight'' \<mapsto> Number 750]" 750 example_config]
        font_weight_thresholds [of "[''font-weight'' \<mapsto> Number 300]" 300 example_config]
        font_weight_thresholds [of "[''font-weight'' \<mapsto> Number 950]" 950 example_config]
  by simp

section \<open>Lengths\<close>

lemmas example_split_units_defs =
  split_units_def example_config_def strip_def is_space_def example_units_fullmatch_def
  take_sign_def take_fraction_def is_digit_def example_float_def digits_value_def
  is_word_char_def

lemma split_units_zero: "split_units example_config ''0'' = Inr (0, [])"
  by (simp add: example_split_units_defs)

lemma split_units_zero_unknown:
  "split_units example_config ''0unknownunit'' = Inr (0, ''unknownunit'')"
  by (simp add: example_split_units_defs)

lemma split_units_5foo: "split_units example_config ''5foo'' = Inr (5, ''foo'')"
  by (simp add: example_split_units_defs)

lemma foo_not_accepted: "\<not> accepted_unit example_config ''foo''"
  by (simp add: accepted_unit_def example_config_def)

lemma u_length_zero: "u_length cfg (0, s) p_style = Inr 0"
  by (simp add: u_length_def)

lemma u_length_unknown:
  "num \<noteq> 0 \<Longrightarrow> \<not> accepted_unit cfg s \<Longrightarrow> u_length cfg (num, s) p_style = Inl ValueError"
  by (auto simp: u_length_def accepted_unit_def)

text \<open>
  C7. When \<open>split_units\<close> reads a text as the number 0 and a unit, \<open>length\<close> returns 0
  whatever the unit, and \<open>length_percentage\<close> returns 0 for every unit but the percent
  sign, the empty unit and units that \<open>_length\<close> does not convert included, for every parent
  style and every base of percentages. A number other than 0 with a unit that \<open>_length\<close>
  does not convert is refused: both acceptors raise \<open>ValueError\<close> and return no value.
\<close>

theorem literal_zero_short_circuit:
  assumes "split_units cfg value = Inr (num, unit)"
  shows "(num = 0 \<longrightarrow> length_acc cfg value p_style = Inr (Some (Number 0)))
       \<and> (num = 0 \<and> unit \<noteq> ''%'' \<longrightarrow>
            length_percentage cfg value p_style mult = Inr (Some (Number 0)))
       \<and> (num \<noteq> 0 \<and> \<not> accepted_unit cfg unit \<longrightarrow>
            length_acc cfg value p_style = Inl ValueError)
       \<and> (num \<noteq> 0 \<and> unit \<noteq> ''%'' \<and> \<not> accepted_unit cfg unit \<longrightarrow>
            length_percentage cfg value p_style mult = Inl ValueError)"
  using assms
  by (simp add: length_acc_def length_percentage_def suppress_def u_length_zero u_length_unknown)

text \<open>In the example configuration the texts \<open>0\<close> and \<open>0unknownunit\<close> are the length 0 for
  every parent style, and \<open>5foo\<close> is refused.\<close>

theorem literal_zero_short_circuit_witness:
  "\<forall>p_style mult.
     length_percentage example_config ''0'' p_style mult = Inr (Some (Number 0))
     \<and> length_percentage example_config ''0unknownunit'' p_style mult = Inr (Some (Number 0))
     \<and> length_percentage example_config ''5foo'' p_style mult = Inl ValueError"
  using literal_zero_short_circuit [OF split_units_zero]
        literal_zero_short_circuit [OF split_units_zero_unknown]
        literal_zero_short_circuit [OF split_units_5foo]
        foo_not_accepted
  by simp

section \<open>The re-expansion loop\<close>

lemma rank_pos: "k \<notin> set style_keys \<Longrightarrow> 0 < rank k"
  by (simp add: rank_def)

lemma rank_border: "''border'' \<notin> set style_keys \<Longrightarrow> rank ''border'' = 2"
  by (simp add: rank_def)

lemma process_property_rank:
  assumes pp: "process_property cfg key value = Inr m" and key: "key \<notin> set style_keys"
    and k: "k \<in> fst ` set m"
  shows "rank k < rank key"
proof (cases "split value")
  case (Inl e)
  with pp show ?thesis by (simp add: process_property_def)
next
  case (Inr arr)
  show ?thesis
  proof (cases "key = ''all''")
    case True
    with pp Inr have "m = dict_of (map (\<lambda>k. (k, value)) (map fst (style_attrs cfg)))"
      by (simp add: process_property_def split: if_splits)
    with k have "k \<in> fst ` set (style_attrs cfg)"
      by (simp add: dict_of_keys image_image)
    then have "rank k = 0" by (simp add: rank_0 style_attrs_key_set)
    with rank_pos [OF key] show ?thesis by simp
  next
    case notall: False
    show ?thesis
    proof (cases "map_of dir_shorthands key")
      case (Some fstring)
      from pp Inr notall Some obtain res where
        res: "fill_fallbacks (drop (length (dict_of (zip directions arr))) directions)
                (dict_of (zip directions arr)) = Inr res"
        and m: "m = dict_of (map (\<lambda>(k, v). (format fstring k, v)) res)"
        by (auto simp: process_property_def Let_def split: if_splits sum.splits)
      have "fst ` set (zip directions arr) \<subseteq> set directions"
        by (auto dest: set_zip_leftD)
      moreover have "set (drop (length (dict_of (zip directions arr))) directions) \<subseteq> set directions"
        by (rule set_drop_subset)
      ultimately have "fst ` set res \<subseteq> set directions"
        using fill_fallbacks_keys [OF res] by (simp add: dict_of_keys)
      moreover have "fst ` set (map (\<lambda>(k, v). (format fstring k, v)) res)
                       = format fstring ` fst ` set res"
        by (induction res) auto
      with m k have "k \<in> format fstring ` fst ` set res"
        by (simp only: dict_of_keys)
      ultimately obtain d where "d \<in> set directions" "k = format fstring d"
        by blast
      then have "rank k = 0"
        using dir_keys_registered [OF Some] by (simp add: rank_0)
      with rank_pos [OF key] show ?thesis by simp
    next
      case None
      show ?thesis
      proof (cases "map_of smart_shorthands key")
        case (Some shorthand)
        from pp Inr notall None Some have
          r: "smart_assign cfg (List.product arr shorthand) [] = Inr m"
          by (auto simp: process_property_def Let_def split: if_splits sum.splits)
        have "snd ` set (List.product arr shorthand) \<subseteq> set shorthand"
          by auto
        with smart_assign_keys [OF r] have "fst ` set m \<subseteq> set shorthand"
          by (simp only: set_simps image_empty Un_empty_left)
        with k have ks: "k \<in> set shorthand" by auto
        from smart_shorthands_cases [OF Some]
        have "key = ''border'' \<or> (\<exists>d \<in> set directions.
                shorthand = [''border-'' @ d @ ''-width'', ''border-'' @ d @ ''-style'',
                             ''border-'' @ d @ ''-color''])"
          by blast
        then show ?thesis
        proof
          assume "key = ''border''"
          with key have "rank key = 2" by (simp add: rank_border)
          with smart_keys_rank [OF Some ks] show ?thesis by simp
        next
          assume "\<exists>d \<in> set directions.
                shorthand = [''border-'' @ d @ ''-width'', ''border-'' @ d @ ''-style'',
                             ''border-'' @ d @ ''-color'']"
          with ks have "k \<in> set style_keys" using side_keys_registered by blast
          then have "rank k = 0" by (simp add: rank_0)
          with rank_pos [OF key] show ?thesis by simp
        qed
      next
        case None2: None
        from key have "map_of (style_attrs cfg) key = None"
          using registered_iff [of cfg key] by simp
        with pp Inr notall None None2 show ?thesis
          by (auto simp: process_property_def split: list.splits)
      qed
    qed
  qed
qed

lemma inner_step:
  "inner cfg ((key, v) # d) (dn, lg) = Inr st' \<Longrightarrow>
   (\<exists>m. process_property cfg key v = Inr m \<and> inner cfg d (dict_update dn m, lg) = Inr st')
   \<or> (\<exists>msg. process_property cfg key v = Inl (AssertionError (Some msg))
             \<and> inner cfg d (dn, lg @ [(msg, key, v)]) = Inr st')"
  by (simp split: sum.splits exn.splits option.splits)

lemma inner_rank:
  "inner cfg d st = Inr st' \<Longrightarrow>
   (\<forall>kv \<in> set d. fst kv \<notin> set style_keys \<and> rank (fst kv) \<le> Suc n) \<Longrightarrow>
   (\<forall>k \<in> fst ` set (fst st). rank k \<le> n) \<Longrightarrow>
   (\<forall>k \<in> fst ` set (fst st'). rank k \<le> n)"
proof (induction d arbitrary: st)
  case Nil
  then show ?case by simp
next
  case (Cons kv d)
  obtain key v where kv: "kv = (key, v)" by (cases kv)
  obtain dn lg where st: "st = (dn, lg)" by (cases st)
  from Cons.prems(2) kv have key: "key \<notin> set style_keys" "rank key \<le> Suc n" by auto
  from Cons.prems(2) have rest: "\<forall>kv \<in> set d. fst kv \<notin> set style_keys \<and> rank (fst kv) \<le> Suc n"
    by simp
  from Cons.prems(3) st have dn: "\<forall>k \<in> fst ` set dn. rank k \<le> n" by simp
  from Cons.prems(1) kv st have "inner cfg ((key, v) # d) (dn, lg) = Inr st'" by simp
  from inner_step [OF this] show ?case
  proof (elim disjE exE conjE)
    fix m
    assume pp: "process_property cfg key v = Inr m"
      and inn: "inner cfg d (dict_update dn m, lg) = Inr st'"
    have "\<forall>k \<in> fst ` set m. rank k \<le> n"
    proof
      fix k assume "k \<in> fst ` set m"
      from process_property_rank [OF pp key(1) this] key(2) show "rank k \<le> n" by simp
    qed
    with dn have "\<forall>k \<in> fst ` set (fst (dict_update dn m, lg)). rank k \<le> n"
      unfolding fst_conv dict_update_keys by blast
    from Cons.IH [OF inn rest this] show ?thesis .
  next
    fix msg
    assume inn: "inner cfg d (dn, lg @ [(msg, key, v)]) = Inr st'"
    from dn have "\<forall>k \<in> fst ` set (fst (dn, lg @ [(msg, key, v)])). rank k \<le> n" by simp
    from Cons.IH [OF inn rest this] show ?thesis .
  qed
qed

lemma registered_Some: "(\<exists>y. map_of (style_attrs cfg) k = Some y) = (k \<in> set style_keys)"
  using registered_iff [of cfg k] by simp

lemma registered_SomeD: "map_of (style_attrs cfg) k = Some y \<Longrightarrow> k \<in> set style_keys"
  using registered_Some [of cfg k] by blast

lemma registered_None: "(map_of (style_attrs cfg) k = None) = (k \<notin> set style_keys)"
  using registered_iff [of cfg k] by blast

lemma done_keys:
  "fst ` set (dict_of (filter (\<lambda>item. map_of (style_attrs cfg) (fst item) \<noteq> None) items))
   \<subseteq> set style_keys"
  unfolding dict_of_keys by (auto dest: registered_SomeD)

lemma expand_loop_returns:
  "(\<forall>k \<in> fst ` set (fst st). rank k \<le> n) \<Longrightarrow>
   \<exists>r. expand_loop cfg st = Some r \<and>
       (case r of Inl e \<Rightarrow> True | Inr st' \<Rightarrow> fst ` set (fst st') \<subseteq> set style_keys)"
proof (induction n arbitrary: st)
  case 0
  then have "\<forall>item \<in> set (fst st). map_of (style_attrs cfg) (fst item) \<noteq> None"
    by (auto simp: registered_Some rank_0)
  then have "filter (\<lambda>item. \<not> map_of (style_attrs cfg) (fst item) \<noteq> None) (fst st) = []"
    by (simp add: filter_empty_conv)
  then show ?case
    using done_keys [of cfg "fst st"]
    by (subst expand_loop.simps) (simp add: group_by_bool_def Let_def)
next
  case (Suc n)
  let ?reg = "\<lambda>item. map_of (style_attrs cfg) (fst item) \<noteq> None"
  let ?done = "dict_of (filter ?reg (fst st))"
  let ?todo = "filter (\<lambda>x. \<not> ?reg x) (fst st)"
  have unfold: "expand_loop cfg st =
      (if ?todo = [] then Some (Inr (?done, snd st))
       else (case inner cfg ?todo (?done, snd st) of
               Inl e \<Rightarrow> Some (Inl e)
             | Inr st' \<Rightarrow> expand_loop cfg st'))"
    by (subst expand_loop.simps) (simp add: group_by_bool_def Let_def)
  have done_keys: "fst ` set ?done \<subseteq> set style_keys"
    by (rule done_keys)
  show ?case
  proof (cases "?todo = []")
    case True
    with unfold done_keys show ?thesis by simp
  next
    case False
    show ?thesis
    proof (cases "inner cfg ?todo (?done, snd st)")
      case (Inl e)
      with unfold False show ?thesis by simp
    next
      case (Inr st')
      have "\<forall>kv \<in> set ?todo. fst kv \<notin> set style_keys \<and> rank (fst kv) \<le> Suc n"
        using Suc.prems by (auto simp: registered_None)
      moreover have "\<forall>k \<in> fst ` set (fst (?done, snd st)). rank k \<le> n"
        using done_keys by (auto simp: rank_0 [symmetric])
      ultimately have "\<forall>k \<in> fst ` set (fst st'). rank k \<le> n"
        by (rule inner_rank [OF Inr])
      from Suc.IH [OF this] unfold False Inr show ?thesis by simp
    qed
  qed
qed

text \<open>
  C9. For every configuration and every list of declarations, \<open>process_input\<close> returns: the
  loop that re-expands the keys that are not registered ends, either with an exception that
  leaves \<open>process_input\<close> or with a dictionary all of whose keys are registered properties.
  The keys still to expand get closer to the registry with every pass: a pass over keys of
  rank at most \<open>n + 1\<close> leaves keys of rank at most \<open>n\<close>, and no key has a rank above 2.
\<close>

theorem process_input_terminates:
  "\<exists>r. process_input cfg d = Some r \<and>
       (case r of
          Inl e \<Rightarrow> True
        | Inr st \<Rightarrow> list_all (\<lambda>k. map_of (style_attrs cfg) k \<noteq> None) (map fst (fst st)))"
proof (cases "inner cfg d ([], [])")
  case (Inl e)
  then show ?thesis by (simp add: process_input_def)
next
  case (Inr st)
  have "\<forall>k \<in> fst ` set (fst st). rank k \<le> 2" by (simp add: rank_le_2)
  from expand_loop_returns [OF this, of cfg] obtain r where
    r: "expand_loop cfg st = Some r"
    and keys: "case r of Inl e \<Rightarrow> True | Inr st' \<Rightarrow> fst ` set (fst st') \<subseteq> set style_keys"
    by blast
  have "case r of
          Inl e \<Rightarrow> True
        | Inr st \<Rightarrow> list_all (\<lambda>k. map_of (style_attrs cfg) k \<noteq> None) (map fst (fst st))"
  proof (cases r)
    case (Inl e)
    then show ?thesis by simp
  next
    case (Inr st')
    with keys have "fst ` set (fst st') \<subseteq> set style_keys" by simp
    then have "\<forall>k \<in> set (map fst (fst st')). map_of (style_attrs cfg) k \<noteq> None"
      unfolding registered_iff by auto
    with Inr show ?thesis by (simp only: list_all_iff sum.case)
  qed
  with r Inr show ?thesis by (simp add: process_input_def)
qed

theorem process_input_terminates_witness:
  "\<exists>r. process_input example_config [(''border'', ''2px solid red''), (''margin'', ''1px'')] = Some r"
  using process_input_terminates
          [of example_config "[(''border'', ''2px solid red''), (''margin'', ''1px'')]"]
  by blast

section \<open>Validity of a value\<close>

lemmas key_defs =
  style_keys_def directions_def inset_keys_def pad_keys_def marg_keys_def
  bw_keys_def bc_keys_def bs_keys_def

lemma style_keys_plain:
  "list_all (\<lambda>key. key \<noteq> ''all'' \<and> key \<notin> set global_values
                \<and> key \<notin> set [''border-width'', ''border-color'', ''border-style'']
                \<and> map_of dir_shorthands key = None \<and> map_of smart_shorthands key = None)
     style_keys"
  by code_simp

lemma guessing_None:
  "key \<notin> set [''border-width'', ''border-color'', ''border-style''] \<Longrightarrow> guessing cfg key = None"
  by (simp add: guessing_def)

lemma registered_not_special:
  assumes "key \<in> set style_keys"
  shows "key \<noteq> ''all''" and "key \<notin> set global_values" and "guessing cfg key = None"
    and "map_of dir_shorthands key = None" and "map_of smart_shorthands key = None"
  using style_keys_plain assms guessing_None [of key cfg] unfolding list_all_iff by blast+

lemma style_attrs_width: "map_of (style_attrs cfg) ''width'' = Some AALP"
  by (simp add: style_attrs_def map_of_dict_of key_defs)


lemma is_valid_registered:
  assumes "map_of (style_attrs cfg) name = Some attr"
  shows "is_valid cfg name v =
           (if kws attr name \<noteq> None then Inr True
            else (case call_acceptor cfg (accept attr) v Map.empty of
                    Inl e \<Rightarrow> if e = KeyError then Inr True else Inl e
                  | Inr None \<Rightarrow> Inr False
                  | Inr (Some x) \<Rightarrow> Inr True))"
proof -
  from assms have "name \<in> set style_keys" by (rule registered_SomeD)
  from registered_not_special(2) [OF this] registered_not_special(3) [OF this, of cfg] assms
  show ?thesis
    by (simp add: is_valid_def)
qed

lemma plain_property:
  assumes "key \<in> set style_keys" and "split v = Inr [x]"
  shows "process_property cfg key v =
           (case is_valid cfg key x of
              Inl e \<Rightarrow> Inl e
            | Inr ok \<Rightarrow> if ok then Inr [(key, x)] else Inl (AssertionError (Some Invalid_Value)))"
proof -
  from assms(1) have "map_of (style_attrs cfg) key \<noteq> None"
    using registered_iff [of cfg key] by blast
  with registered_not_special(1,4,5) [OF assms(1)] assms(2) show ?thesis
    by (auto simp: process_property_def split: sum.splits)
qed





lemma color_currentcolor_empty: "color cfg ''currentcolor'' Map.empty = Inl KeyError"
  by (simp add: color_def)







section \<open>Declarations that end the expansion\<close>

lemma split_single_5foo: "split ''5foo'' = Inr [''5foo'']"
  by (simp add: split_def is_space_def)

lemma split_single_auto: "split ''auto'' = Inr [''auto'']"
  by (simp add: split_def is_space_def)

lemma split_unbalanced: "split ''rgb(1,2))'' = Inl (AssertionError None)"
  by (simp add: split_def is_space_def)

lemma split_two: "split ''red blue'' = Inr [''red'', ''blue'']"
  by (simp add: split_def is_space_def)

lemma width_registered: "''width'' \<in> set style_keys"
  by (simp add: style_keys_def)

lemma color_registered: "''color'' \<in> set style_keys"
  by (simp add: style_keys_def)

lemma length_percentage_unknown_unit:
  assumes "split_units cfg v = Inr (num, unit)" and "num \<noteq> 0" and "unit \<noteq> ''%''"
    and "\<not> accepted_unit cfg unit"
  shows "length_percentage cfg v p_style mult = Inl ValueError"
  using assms by (simp add: length_percentage_def suppress_def u_length_unknown)

lemma is_valid_width:
  "is_valid cfg ''width'' v =
     (case length_percentage cfg v Map.empty None of
        Inl e \<Rightarrow> if e = KeyError then Inr True else Inl e
      | Inr None \<Rightarrow> Inr False
      | Inr (Some x) \<Rightarrow> Inr True)"
  unfolding is_valid_registered [OF style_attrs_width]
  by (simp add: AALP_def StyleAttr_init_def auto_def)

text \<open>
  C2. The claim is that a known property with an invalid value is logged and dropped, and
  that \<open>process_input\<close> still returns the expansion of the other declarations. The code
  does otherwise. A wrong unit makes \<open>_length\<close> raise \<open>ValueError\<close>, which neither
  \<open>is_valid\<close> nor \<open>process_input\<close> handles: whatever declarations follow, \<open>process_input\<close>
  ends with \<open>ValueError\<close>. An assertion that fails without a message (a closing bracket
  too many, two tokens for a plain property) makes the handler of \<open>process_input\<close> raise
  \<open>IndexError\<close>, with the same end.
\<close>

theorem process_input_aborts:
  "(split_units cfg ''5foo'' = Inr (num, unit) \<and> num \<noteq> 0 \<and> unit \<noteq> ''%''
      \<and> \<not> accepted_unit cfg unit \<longrightarrow>
      process_input cfg ((''width'', ''5foo'') # rest) = Some (Inl ValueError))
   \<and> process_input cfg ((''color'', ''rgb(1,2))'') # rest) = Some (Inl IndexError)
   \<and> process_input cfg ((''color'', ''red blue'') # rest) = Some (Inl IndexError)"
proof (intro conjI impI)
  assume a: "split_units cfg ''5foo'' = Inr (num, unit) \<and> num \<noteq> 0 \<and> unit \<noteq> ''%''
      \<and> \<not> accepted_unit cfg unit"
  then have "length_percentage cfg ''5foo'' Map.empty None = Inl ValueError"
    using length_percentage_unknown_unit by blast
  then have "is_valid cfg ''width'' ''5foo'' = Inl ValueError"
    by (simp add: is_valid_width)
  then have "process_property cfg ''width'' ''5foo'' = Inl ValueError"
    by (simp add: plain_property [OF width_registered split_single_5foo])
  then show "process_input cfg ((''width'', ''5foo'') # rest) = Some (Inl ValueError)"
    by (simp add: process_input_def)
next
  have "process_property cfg ''color'' ''rgb(1,2))'' = Inl (AssertionError None)"
    by (simp add: process_property_def split_unbalanced)
  then show "process_input cfg ((''color'', ''rgb(1,2))'') # rest) = Some (Inl IndexError)"
    by (simp add: process_input_def)
next
  have "process_property cfg ''color'' ''red blue'' = Inl (AssertionError None)"
    using registered_not_special(1,4,5) [OF color_registered]
    by (simp add: process_property_def split_two)
  then show "process_input cfg ((''color'', ''red blue'') # rest) = Some (Inl IndexError)"
    by (simp add: process_input_def)
qed

theorem process_input_aborts_witness:
  "process_input example_config [(''width'', ''5foo''), (''color'', ''red'')] = Some (Inl ValueError)"
  using process_input_aborts [of example_config 5 "''foo''" "[(''color'', ''red'')]"]
        split_units_5foo foo_not_accepted
  by simp

section \<open>Canonical declarations\<close>

lemma expand_loop_nothing_done: "expand_loop cfg ([], logged) = Some (Inr ([], logged))"
  by (subst expand_loop.simps) (simp add: group_by_bool_def dict_of_def)

text \<open>
  C8. The claim is that a list of declarations with registered keys and valid single tokens
  comes back from \<open>process_input\<close> unchanged. The code does otherwise for a value that is
  valid by a keyword of its property: \<open>auto\<close> is a keyword of \<open>width\<close>, and \<open>convert\<close>
  gives \<open>Auto\<close> for it, but \<open>is_valid\<close> looks the name of the property up among the
  keywords, not the value, then asks the acceptor, which knows no keyword. So \<open>is_valid\<close>
  answers false and \<open>process_input\<close> drops \<open>width: auto\<close>, logging an invalid value.
\<close>

theorem keyword_value_dropped:
  assumes "units_fullmatch cfg ''auto'' = None"
  shows "convert cfg AALP ''auto'' p_style = Inr (Some Auto)
       \<and> is_valid cfg ''width'' ''auto'' = Inr False
       \<and> process_input cfg [(''width'', ''auto'')]
           = Some (Inr ([], [(Invalid_Value, ''width'', ''auto'')]))"
proof -
  have "strip ''auto'' = ''auto''" by (simp add: strip_def is_space_def)
  with assms have "split_units cfg ''auto'' = Inl AttributeError"
    by (simp add: split_units_def)
  then have "length_percentage cfg ''auto'' Map.empty None = Inr None"
    by (simp add: length_percentage_def suppress_def)
  then have v: "is_valid cfg ''width'' ''auto'' = Inr False"
    by (simp add: is_valid_width)
  then have "process_property cfg ''width'' ''auto'' = Inl (AssertionError (Some Invalid_Value))"
    by (simp add: plain_property [OF width_registered split_single_auto])
  then have "process_input cfg [(''width'', ''auto'')]
           = Some (Inr ([], [(Invalid_Value, ''width'', ''auto'')]))"
    by (simp add: process_input_def expand_loop_nothing_done)
  moreover have "convert cfg AALP ''auto'' p_style = Inr (Some Auto)"
    by (simp add: convert_def AALP_def StyleAttr_init_def auto_def)
  ultimately show ?thesis using v by simp
qed

theorem keyword_value_dropped_witness:
  "process_input example_config [(''width'', ''auto'')]
     = Some (Inr ([], [(Invalid_Value, ''width'', ''auto'')]))"
  using keyword_value_dropped [of example_config]
  by (simp add: example_config_def example_units_fullmatch_def take_sign_def is_digit_def)

section \<open>Directional shorthands\<close>

lemma dir_not_all: "map_of dir_shorthands key = Some fstring \<Longrightarrow> key \<noteq> ''all''"
  by (drule dir_shorthands_cases) auto

lemma format_inj: "(format fstring a = format fstring b) = (a = b)"
  by (simp add: format_def)

lemma dir_expand:
  assumes "map_of dir_shorthands key = Some fstring" and "split v = Inr arr"
    and "length arr \<le> 4"
  shows "process_property cfg key v =
           (case fill_fallbacks (drop (length (dict_of (zip directions arr))) directions)
                   (dict_of (zip directions arr)) of
              Inl e \<Rightarrow> Inl e
            | Inr res \<Rightarrow> Inr (dict_of (map (\<lambda>(k, v). (format fstring k, v)) res)))"
  using assms dir_not_all [OF assms(1)]
  by (simp add: process_property_def directions_def Let_def)

lemma dir_too_many:
  assumes "map_of dir_shorthands key = Some fstring" and "split v = Inr arr"
    and "4 < length arr"
  shows "process_property cfg key v
         = Inl (AssertionError (Some (Too_many_values (length arr) 4)))"
  using assms dir_not_all [OF assms(1)]
  by (simp add: process_property_def directions_def)

lemma dir_shorthands_margin: "map_of dir_shorthands ''margin'' = Some (''margin-'', [])"
  by (simp add: dir_shorthands_def map_of_dict_of)

lemma split_margin: "split ''1px 2px'' = Inr [''1px'', ''2px'']"
  by (simp add: split_def is_space_def)

lemma split_five: "split ''1 2 3 4 5'' = Inr [''1'', ''2'', ''3'', ''4'', ''5'']"
  by (simp add: split_def is_space_def)

text \<open>
  C6. For a key of \<open>dir_shorthands\<close> (\<open>margin\<close>, \<open>padding\<close>, \<open>border-width\<close>,
  \<open>border-color\<close>, \<open>border-style\<close>, \<open>inset\<close>) whose value \<open>split\<close> cuts into one to
  four tokens, \<open>process_property\<close> gives the tokens to top, right, bottom and left in that
  order, and fills a missing right with top, a missing bottom with top and a missing left
  with right; the names of the four results are the format string of the key at the four
  directions. With more than four tokens the assertion fails with its message, and
  \<open>process_input\<close> logs the declaration and leaves the dictionary as it was.
\<close>

theorem directional_shorthand:
  assumes "map_of dir_shorthands key = Some fstring" and "split v = Inr arr"
  shows "(arr = [a] \<longrightarrow> process_property cfg key v =
            Inr [(format fstring ''top'', a), (format fstring ''right'', a),
                 (format fstring ''bottom'', a), (format fstring ''left'', a)])
       \<and> (arr = [a, b] \<longrightarrow> process_property cfg key v =
            Inr [(format fstring ''top'', a), (format fstring ''right'', b),
                 (format fstring ''bottom'', a), (format fstring ''left'', b)])
       \<and> (arr = [a, b, c] \<longrightarrow> process_property cfg key v =
            Inr [(format fstring ''top'', a), (format fstring ''right'', b),
                 (format fstring ''bottom'', c), (format fstring ''left'', b)])
       \<and> (arr = [a, b, c, d] \<longrightarrow> process_property cfg key v =
            Inr [(format fstring ''top'', a), (format fstring ''right'', b),
                 (format fstring ''bottom'', c), (format fstring ''left'', d)])
       \<and> (4 < length arr \<longrightarrow>
            process_property cfg key v
              = Inl (AssertionError (Some (Too_many_values (length arr) 4)))
            \<and> inner cfg [(key, v)] (dn, logged)
              = Inr (dn, logged @ [(Too_many_values (length arr) 4, key, v)]))"
proof (intro conjI impI)
  assume "arr = [a]"
  with dir_expand [OF assms, of cfg] show "process_property cfg key v =
            Inr [(format fstring ''top'', a), (format fstring ''right'', a),
                 (format fstring ''bottom'', a), (format fstring ''left'', a)]"
    by (simp add: directions_def dict_of_def dir_fallbacks_def format_inj)
next
  assume "arr = [a, b]"
  with dir_expand [OF assms, of cfg] show "process_property cfg key v =
            Inr [(format fstring ''top'', a), (format fstring ''right'', b),
                 (format fstring ''bottom'', a), (format fstring ''left'', b)]"
    by (simp add: directions_def dict_of_def dir_fallbacks_def format_inj)
next
  assume "arr = [a, b, c]"
  with dir_expand [OF assms, of cfg] show "process_property cfg key v =
            Inr [(format fstring ''top'', a), (format fstring ''right'', b),
                 (format fstring ''bottom'', c), (format fstring ''left'', b)]"
    by (simp add: directions_def dict_of_def dir_fallbacks_def format_inj)
next
  assume "arr = [a, b, c, d]"
  with dir_expand [OF assms, of cfg] show "process_property cfg key v =
            Inr [(format fstring ''top'', a), (format fstring ''right'', b),
                 (format fstring ''bottom'', c), (format fstring ''left'', d)]"
    by (simp add: directions_def dict_of_def dir_fallbacks_def format_inj)
next
  assume "4 < length arr"
  from dir_too_many [OF assms this, of cfg]
  show "process_property cfg key v
          = Inl (AssertionError (Some (Too_many_values (length arr) 4)))" .
  then show "inner cfg [(key, v)] (dn, logged)
              = Inr (dn, logged @ [(Too_many_values (length arr) 4, key, v)])"
    by simp
qed

theorem directional_shorthand_witness:
  "(\<forall>cfg. process_property cfg ''margin'' ''1px 2px'' =
            Inr [(''margin-top'', ''1px''), (''margin-right'', ''2px''),
                 (''margin-bottom'', ''1px''), (''margin-left'', ''2px'')])
   \<and> (\<forall>cfg. process_property cfg ''margin'' ''1 2 3 4 5''
            = Inl (AssertionError (Some (Too_many_values 5 4))))"
  using directional_shorthand
          [OF dir_shorthands_margin split_margin, where a = "''1px''" and b = "''2px''"]
        directional_shorthand [OF dir_shorthands_margin split_five]
  by (simp add: format_def)

end
